theory Spec2Isabelle
  imports Main
begin

section \<open>The notebook \<open>parameter_tuning_manual.ipynb\<close> as a program over a library\<close>

text \<open>
  The notebook is a straight-line Python script: every statement is a call into pandas,
  scikit-learn, NumPy or a Python builtin. Those libraries are not part of the repository,
  so the embedding keeps them abstract: a \<open>library\<close> answers the requests of the script,
  may fail with an exception of type \<open>'e\<close>, and owns a state \<open>'w\<close> (the file system,
  the objects it has created, their hyper-parameters). What the repository fixes is the
  script itself: which requests are made, in which order, with which arguments, and what
  happens to an exception. The script therefore becomes a function of the library, and its
  run leaves a trace of the requests it made together with the answers it got.
\<close>

subsection \<open>Values\<close>

text \<open>
  The values the script handles. \<open>IntLit\<close> and \<open>StrV\<close> are Python \<open>int\<close> and \<open>str\<close>
  literals; \<open>FloatLit m e\<close> is the \<open>float\<close> literal written \<open>m\<close>e\<open>e\<close> in the source
  (\<open>1e-3\<close> is \<open>FloatLit 1 (-3)\<close>), kept as written; \<open>Ref\<close> is a handle of an object that the
  library created (a data frame, an estimator, an array, a dictionary of results).
\<close>

datatype pyval =
    NoneV
  | IntLit int
  | FloatLit int int
  | StrV string
  | ListV "pyval list"
  | TupleV "pyval list"
  | Ref nat

subsection \<open>Requests to the library\<close>

text \<open>
  \<open>ImportAs m a\<close> is \<open>import m as a\<close>; \<open>ImportFrom m n\<close> is \<open>from m import n\<close>;
  \<open>Call f args kwargs\<close> is \<open>f(*args, **kwargs)\<close> for a global name \<open>f\<close>;
  \<open>Method obj m args kwargs\<close> is \<open>obj.m(*args, **kwargs)\<close>; \<open>GetItem obj key\<close> is
  \<open>obj[key]\<close>; \<open>Iter obj\<close> is the iteration \<open>for x in obj\<close>, answered with the items in
  order; \<open>Format v spec\<close> is a replacement field \<open>{v:spec}\<close> of an f-string.
\<close>

datatype request =
    ImportAs string string
  | ImportFrom string string
  | Call string "pyval list" "(string \<times> pyval) list"
  | Method pyval string "pyval list" "(string \<times> pyval) list"
  | GetItem pyval pyval
  | Iter pyval
  | Format pyval string

record ('w, 'e) library =
  respond :: "request \<Rightarrow> 'w \<Rightarrow> ('e + pyval) \<times> 'w"
  iterate :: "pyval \<Rightarrow> 'w \<Rightarrow> ('e + pyval list) \<times> 'w"
  format_field :: "pyval \<Rightarrow> string \<Rightarrow> 'w \<Rightarrow> ('e + string) \<times> 'w"

subsection \<open>Running state, exceptions and sequencing\<close>

text \<open>
  The state of a run: the state of the library and the trace of the requests made so far,
  each with its answer (\<open>Inl\<close> an exception, \<open>Inr\<close> a value; the items of an iteration are
  logged as a \<open>ListV\<close>, the text of a replacement field as a \<open>StrV\<close>).
\<close>

type_synonym 'e event = "request \<times> ('e + pyval)"

record ('w, 'e) rt =
  world :: 'w
  trace :: "'e event list"

type_synonym ('w, 'e, 'a) prog = "('w, 'e) rt \<Rightarrow> ('e + 'a) \<times> ('w, 'e) rt"

definition return_prog :: "'a \<Rightarrow> ('w, 'e, 'a) prog" where
  "return_prog x s = (Inr x, s)"

text \<open>
  One statement after another. The script has no \<open>try\<close>: an exception of the first
  statement is the result, and the second statement is not run.
\<close>

definition bind_prog :: "('w, 'e, 'a) prog \<Rightarrow> ('a \<Rightarrow> ('w, 'e, 'b) prog) \<Rightarrow> ('w, 'e, 'b) prog" where
  "bind_prog m f s = (case m s of (Inl e, s') \<Rightarrow> (Inl e, s') | (Inr x, s') \<Rightarrow> f x s')"

text \<open>A \<open>for\<close> loop over a list whose body returns nothing.\<close>

primrec for_each :: "'a list \<Rightarrow> ('a \<Rightarrow> ('w, 'e, unit) prog) \<Rightarrow> ('w, 'e, unit) prog" where
  "for_each [] body = return_prog ()"
| "for_each (x # xs) body = bind_prog (body x) (\<lambda>_. for_each xs body)"

definition ask :: "('w, 'e) library \<Rightarrow> request \<Rightarrow> ('w, 'e, pyval) prog" where
  "ask lib rq s =
     (case respond lib rq (world s) of
        (r, w') \<Rightarrow> (r, \<lparr>world = w', trace = trace s @ [(rq, r)]\<rparr>))"

definition iter_over :: "('w, 'e) library \<Rightarrow> pyval \<Rightarrow> ('w, 'e, pyval list) prog" where
  "iter_over lib obj s =
     (case iterate lib obj (world s) of
        (r, w') \<Rightarrow> (r, \<lparr>world = w', trace = trace s @ [(Iter obj, map_sum id ListV r)]\<rparr>))"

definition fmt :: "('w, 'e) library \<Rightarrow> pyval \<Rightarrow> string \<Rightarrow> ('w, 'e, string) prog" where
  "fmt lib v spec s =
     (case format_field lib v spec (world s) of
        (r, w') \<Rightarrow> (r, \<lparr>world = w', trace = trace s @ [(Format v spec, map_sum id StrV r)]\<rparr>))"

text \<open>\<open>print(v)\<close>: a call of the builtin, whose result is dropped.\<close>

definition print_py :: "('w, 'e) library \<Rightarrow> pyval \<Rightarrow> ('w, 'e, unit) prog" where
  "print_py lib v = bind_prog (ask lib (Call ''print'' [v] [])) (\<lambda>_. return_prog ())"

subsection \<open>The code cells\<close>

text \<open>
  The cells are numbered as in the notebook (the even cells are markdown). A Python
  variable becomes a bound variable; a cell returns the variables that later cells read.
  The cells run in order, as a script: that the notebook front end also displays the value
  of the last expression of a cell (cells 3 and 13) is not part of the script.
\<close>

text \<open>
  Cell 1:
  \<^verbatim>\<open>
  import pandas as pd
  adult_census = pd.read_csv("../datasets/adult-census.csv")
  target_name = "class"
  numerical_columns = ["age", "capital-gain", "capital-loss", "hours-per-week"]
  target = adult_census[target_name]
  data = adult_census[numerical_columns]
  \<close>
\<close>

definition target_name :: pyval where
  "target_name = StrV ''class''"

definition numerical_columns :: pyval where
  "numerical_columns =
     ListV [StrV ''age'', StrV ''capital-gain'', StrV ''capital-loss'', StrV ''hours-per-week'']"

definition cell1 :: "('w, 'e) library \<Rightarrow> ('w, 'e, pyval \<times> pyval) prog" where
  "cell1 lib =
     bind_prog (ask lib (ImportAs ''pandas'' ''pd'')) (\<lambda>_.
     bind_prog (ask lib (Call ''pd.read_csv'' [StrV ''../datasets/adult-census.csv''] [])) (\<lambda>adult_census.
     bind_prog (ask lib (GetItem adult_census target_name)) (\<lambda>target.
     bind_prog (ask lib (GetItem adult_census numerical_columns)) (\<lambda>data.
     return_prog (data, target)))))"

text \<open>Cell 3: \<^verbatim>\<open>data.head()\<close>\<close>

definition cell3 :: "('w, 'e) library \<Rightarrow> pyval \<Rightarrow> ('w, 'e, unit) prog" where
  "cell3 lib data = bind_prog (ask lib (Method data ''head'' [] [])) (\<lambda>_. return_prog ())"

text \<open>
  Cell 5:
  \<^verbatim>\<open>
  from sklearn.pipeline import Pipeline
  from sklearn.preprocessing import StandardScaler
  from sklearn.linear_model import LogisticRegression
  model = Pipeline(steps=[
      ("preprocessor", StandardScaler()),
      ("classifier", LogisticRegression())
  ])
  \<close>
\<close>

definition cell5 :: "('w, 'e) library \<Rightarrow> ('w, 'e, pyval) prog" where
  "cell5 lib =
     bind_prog (ask lib (ImportFrom ''sklearn.pipeline'' ''Pipeline'')) (\<lambda>_.
     bind_prog (ask lib (ImportFrom ''sklearn.preprocessing'' ''StandardScaler'')) (\<lambda>_.
     bind_prog (ask lib (ImportFrom ''sklearn.linear_model'' ''LogisticRegression'')) (\<lambda>_.
     bind_prog (ask lib (Call ''StandardScaler'' [] [])) (\<lambda>scaler.
     bind_prog (ask lib (Call ''LogisticRegression'' [] [])) (\<lambda>classifier.
     ask lib (Call ''Pipeline'' []
       [(''steps'', ListV [TupleV [StrV ''preprocessor'', scaler],
                           TupleV [StrV ''classifier'', classifier]])]))))))"

text \<open>
  Cell 7:
  \<^verbatim>\<open>
  from sklearn.model_selection import cross_validate
  cv_results = cross_validate(model, data, target)
  scores = cv_results["test_score"]
  print(f"Accuracy score via cross-validation:\n"
        f"{scores.mean():.3f} +/- {scores.std():.3f}")
  \<close>
\<close>

definition cell7 :: "('w, 'e) library \<Rightarrow> pyval \<Rightarrow> pyval \<Rightarrow> pyval \<Rightarrow> ('w, 'e, unit) prog" where
  "cell7 lib model data target =
     bind_prog (ask lib (ImportFrom ''sklearn.model_selection'' ''cross_validate'')) (\<lambda>_.
     bind_prog (ask lib (Call ''cross_validate'' [model, data, target] [])) (\<lambda>cv_results.
     bind_prog (ask lib (GetItem cv_results (StrV ''test_score''))) (\<lambda>scores.
     bind_prog (ask lib (Method scores ''mean'' [] [])) (\<lambda>mean.
     bind_prog (fmt lib mean ''.3f'') (\<lambda>mean_text.
     bind_prog (ask lib (Method scores ''std'' [] [])) (\<lambda>std.
     bind_prog (fmt lib std ''.3f'') (\<lambda>std_text.
     print_py lib (StrV (''Accuracy score via cross-validation:\<newline>''
                         @ mean_text @ '' +/- '' @ std_text)))))))))"

text \<open>
  Cell 9:
  \<^verbatim>\<open>
  model.set_params(classifier__C=1e-3)
  cv_results = cross_validate(model, data, target)
  scores = cv_results["test_score"]
  print(f"Accuracy score via cross-validation:\n"
        f"{scores.mean():.3f} +/- {scores.std():.3f}")
  \<close>
\<close>

definition cell9 :: "('w, 'e) library \<Rightarrow> pyval \<Rightarrow> pyval \<Rightarrow> pyval \<Rightarrow> ('w, 'e, unit) prog" where
  "cell9 lib model data target =
     bind_prog (ask lib (Method model ''set_params'' [] [(''classifier__C'', FloatLit 1 (- 3))])) (\<lambda>_.
     bind_prog (ask lib (Call ''cross_validate'' [model, data, target] [])) (\<lambda>cv_results.
     bind_prog (ask lib (GetItem cv_results (StrV ''test_score''))) (\<lambda>scores.
     bind_prog (ask lib (Method scores ''mean'' [] [])) (\<lambda>mean.
     bind_prog (fmt lib mean ''.3f'') (\<lambda>mean_text.
     bind_prog (ask lib (Method scores ''std'' [] [])) (\<lambda>std.
     bind_prog (fmt lib std ''.3f'') (\<lambda>std_text.
     print_py lib (StrV (''Accuracy score via cross-validation:\<newline>''
                         @ mean_text @ '' +/- '' @ std_text)))))))))"

text \<open>
  Cell 11:
  \<^verbatim>\<open>
  for parameter in model.get_params():
      print(parameter)
  \<close>
  Iterating a dictionary gives its keys in order. The model asks for all of them in one
  request and then prints each; the body of the loop does not touch the dictionary.
\<close>

definition cell11 :: "('w, 'e) library \<Rightarrow> pyval \<Rightarrow> ('w, 'e, unit) prog" where
  "cell11 lib model =
     bind_prog (ask lib (Method model ''get_params'' [] [])) (\<lambda>params.
     bind_prog (iter_over lib params) (\<lambda>keys.
     for_each keys (\<lambda>parameter. print_py lib parameter)))"

text \<open>Cell 13: \<^verbatim>\<open>model.get_params()['classifier__C']\<close>\<close>

definition cell13 :: "('w, 'e) library \<Rightarrow> pyval \<Rightarrow> ('w, 'e, pyval) prog" where
  "cell13 lib model =
     bind_prog (ask lib (Method model ''get_params'' [] [])) (\<lambda>params.
     ask lib (GetItem params (StrV ''classifier__C'')))"

text \<open>
  Cell 15:
  \<^verbatim>\<open>
  for C in [1e-3, 1e-2, 1e-1, 1, 10]:
      model.set_params(classifier__C=C)
      cv_results = cross_validate(model, data, target)
      scores = cv_results["test_score"]
      print(f"Accuracy score via cross-validation with C={C}:\n"
            f"{scores.mean():.3f} +/- {scores.std():.3f}")
  \<close>
  The replacement fields of the f-string are evaluated from left to right: \<open>{C}\<close> first
  (with the empty format specification), then the mean, then the standard deviation.
\<close>

definition candidates :: "pyval list" where
  "candidates = [FloatLit 1 (- 3), FloatLit 1 (- 2), FloatLit 1 (- 1), IntLit 1, IntLit 10]"

definition cell15_body :: "('w, 'e) library \<Rightarrow> pyval \<Rightarrow> pyval \<Rightarrow> pyval \<Rightarrow> pyval \<Rightarrow> ('w, 'e, unit) prog" where
  "cell15_body lib model data target C =
     bind_prog (ask lib (Method model ''set_params'' [] [(''classifier__C'', C)])) (\<lambda>_.
     bind_prog (ask lib (Call ''cross_validate'' [model, data, target] [])) (\<lambda>cv_results.
     bind_prog (ask lib (GetItem cv_results (StrV ''test_score''))) (\<lambda>scores.
     bind_prog (fmt lib C '''') (\<lambda>C_text.
     bind_prog (ask lib (Method scores ''mean'' [] [])) (\<lambda>mean.
     bind_prog (fmt lib mean ''.3f'') (\<lambda>mean_text.
     bind_prog (ask lib (Method scores ''std'' [] [])) (\<lambda>std.
     bind_prog (fmt lib std ''.3f'') (\<lambda>std_text.
     print_py lib (StrV (''Accuracy score via cross-validation with C='' @ C_text @ '':\<newline>''
                         @ mean_text @ '' +/- '' @ std_text))))))))))"

definition cell15 :: "('w, 'e) library \<Rightarrow> pyval \<Rightarrow> pyval \<Rightarrow> pyval \<Rightarrow> ('w, 'e, unit) prog" where
  "cell15 lib model data target = for_each candidates (cell15_body lib model data target)"

text \<open>The notebook, run from top to bottom.\<close>

definition notebook :: "('w, 'e) library \<Rightarrow> ('w, 'e, unit) prog" where
  "notebook lib =
     bind_prog (cell1 lib) (\<lambda>(data, target).
     bind_prog (cell3 lib data) (\<lambda>_.
     bind_prog (cell5 lib) (\<lambda>model.
     bind_prog (cell7 lib model data target) (\<lambda>_.
     bind_prog (cell9 lib model data target) (\<lambda>_.
     bind_prog (cell11 lib model) (\<lambda>_.
     bind_prog (cell13 lib model) (\<lambda>_.
     cell15 lib model data target)))))))"

text \<open>A run starts with an empty trace.\<close>

definition start :: "'w \<Rightarrow> ('w, 'e) rt" where
  "start w = \<lparr>world = w, trace = []\<rparr>"

section \<open>Reading a trace\<close>

text \<open>
  The answers of one cross-validation report: the result of the statement before the call
  of \<open>cross_validate\<close> (the import in cell 7, \<open>set_params\<close> in cells 9 and 15), the
  dictionary of results, the array of fold scores, the text of \<open>{C}\<close> (cell 15 only), the
  mean and the standard deviation with their formatted texts, and what \<open>print\<close> returned.
\<close>

record answers =
  first_result :: pyval
  cv_results :: pyval
  scores :: pyval
  C_text :: string
  mean :: pyval
  mean_text :: string
  std :: pyval
  std_text :: string
  print_result :: pyval

text \<open>The two requests \<open>cross_validate(model, data, target)\<close> and \<open>cv_results["test_score"]\<close>.\<close>

definition cv_events :: "pyval \<Rightarrow> pyval \<Rightarrow> pyval \<Rightarrow> answers \<Rightarrow> 'e event list" where
  "cv_events model data target a =
     [(Call ''cross_validate'' [model, data, target] [], Inr (cv_results a)),
      (GetItem (cv_results a) (StrV ''test_score''), Inr (scores a))]"

text \<open>
  A printed report: the mean of the fold scores and its text under the format
  specification \<open>.3f\<close>, the standard deviation and its text under \<open>.3f\<close>, and the call of
  \<open>print\<close> with the header followed by the two texts, separated by \<open>+/-\<close>.
\<close>

definition report_events :: "string \<Rightarrow> answers \<Rightarrow> 'e event list" where
  "report_events header a =
     [(Method (scores a) ''mean'' [] [], Inr (mean a)),
      (Format (mean a) ''.3f'', Inr (StrV (mean_text a))),
      (Method (scores a) ''std'' [] [], Inr (std a)),
      (Format (std a) ''.3f'', Inr (StrV (std_text a))),
      (Call ''print'' [StrV (header @ mean_text a @ '' +/- '' @ std_text a)] [],
       Inr (print_result a))]"

text \<open>One iteration of the sweep of cell 15 for the candidate \<open>C\<close>, as a list of events.\<close>

definition sweep_events :: "pyval \<Rightarrow> pyval \<Rightarrow> pyval \<Rightarrow> pyval \<Rightarrow> answers \<Rightarrow> 'e event list" where
  "sweep_events model data target C a =
     (Method model ''set_params'' [] [(''classifier__C'', C)], Inr (first_result a))
     # cv_events model data target a
     @ (Format C '''', Inr (StrV (C_text a)))
     # report_events (''Accuracy score via cross-validation with C='' @ C_text a @ '':\<newline>'') a"

subsection \<open>A library to run the notebook against\<close>

text \<open>
  A small library for concrete runs: it hands out fresh handles, knows the files \<open>files\<close>
  and the parameter names \<open>params\<close>, raises \<open>FileNotFoundError\<close> when \<open>pd.read_csv\<close> is
  given another path and \<open>ValueError\<close> when \<open>set_params\<close> is given another name;
  \<open>set_params\<close> returns its receiver and \<open>print\<close> returns \<open>None\<close>. Its state is the next
  free handle.
\<close>

datatype py_exception = FileNotFoundError | ValueError

definition toy_respond :: "string list \<Rightarrow> string list \<Rightarrow> request \<Rightarrow> nat \<Rightarrow> (py_exception + pyval) \<times> nat" where
  "toy_respond files params rq n =
     (case rq of
        Call f args kw \<Rightarrow>
          if f = ''pd.read_csv'' \<and> \<not> list_ex (\<lambda>p. args = [StrV p]) files
          then (Inl FileNotFoundError, n)
          else if f = ''print'' then (Inr NoneV, n)
          else (Inr (Ref n), Suc n)
      | Method obj m args kw \<Rightarrow>
          if m = ''set_params''
          then (if list_all (\<lambda>k. k \<in> set params) (map fst kw) then (Inr obj, n)
                else (Inl ValueError, n))
          else (Inr (Ref n), Suc n)
      | _ \<Rightarrow> (Inr (Ref n), Suc n))"

definition toy_library :: "string list \<Rightarrow> string list \<Rightarrow> (nat, py_exception) library" where
  "toy_library files params =
     \<lparr>respond = toy_respond files params,
      iterate = (\<lambda>obj n. (Inr (map StrV params), n)),
      format_field = (\<lambda>v spec n. (Inr (''{:'' @ spec @ ''}''), n))\<rparr>"


subsection \<open>Exceptions in a trace\<close>

text \<open>A request succeeded when its answer is a value, not an exception.\<close>

definition succeeded :: "'e event \<Rightarrow> bool" where
  "succeeded ev = (case snd ev of Inl e \<Rightarrow> False | Inr v \<Rightarrow> True)"

text \<open>
  The result of a piece of the script agrees with the events it added to the trace: when
  it returns, every request succeeded; when it ends with the exception \<open>e\<close>, the last
  request raised \<open>e\<close> and every request before it succeeded.
\<close>

definition faithful :: "'e + 'a \<Rightarrow> 'e event list \<Rightarrow> bool" where
  "faithful r evs =
     (case r of
        Inr x \<Rightarrow> list_all succeeded evs
      | Inl e \<Rightarrow> (\<exists>pre rq. evs = pre @ [(rq, Inl e)] \<and> list_all succeeded pre))"

definition propagates :: "('w, 'e, 'a) prog \<Rightarrow> bool" where
  "propagates m = (\<forall>s. \<exists>evs. trace (snd (m s)) = trace s @ evs \<and> faithful (fst (m s)) evs)"

subsection \<open>What the script passes to the library\<close>

text \<open>The object that a completed call of \<open>Pipeline\<close> returned.\<close>

fun created_pipelines :: "'e event \<Rightarrow> pyval list" where
  "created_pipelines (Call f args kw, Inr v) = (if f = ''Pipeline'' then [v] else [])"
| "created_pipelines _ = []"

text \<open>The receiver and the keyword arguments of a call of \<open>set_params\<close>.\<close>

fun set_params_receivers :: "'e event \<Rightarrow> pyval list" where
  "set_params_receivers (Method obj m args kw, r) = (if m = ''set_params'' then [obj] else [])"
| "set_params_receivers _ = []"

fun set_params_kwargs :: "'e event \<Rightarrow> (string \<times> pyval) list" where
  "set_params_kwargs (Method obj m args kw, r) = (if m = ''set_params'' then kw else [])"
| "set_params_kwargs _ = []"

text \<open>The estimator (the first argument) and the keyword arguments of a call of \<open>cross_validate\<close>.\<close>

fun cross_validate_estimators :: "'e event \<Rightarrow> pyval list" where
  "cross_validate_estimators (Call f args kw, r) = (if f = ''cross_validate'' then take 1 args else [])"
| "cross_validate_estimators _ = []"

fun cross_validate_kwargs :: "'e event \<Rightarrow> (string \<times> pyval) list" where
  "cross_validate_kwargs (Call f args kw, r) = (if f = ''cross_validate'' then kw else [])"
| "cross_validate_kwargs _ = []"

subsection \<open>A library whose cross-validation scores a failed fit as nan\<close>

text \<open>
  scikit-learn documents the keyword \<open>error_score\<close> of \<open>cross_validate\<close>: with the value
  \<open>'raise'\<close> an error in fitting the estimator is raised; with a number (the default is
  \<open>nan\<close>) that number becomes the score of the fold and the call returns. The library
  below does that for a CSV file with a missing value (\<open>missing_value\<close>), which the linear
  classifier cannot be fitted on: \<open>cross_validate\<close> raises \<open>ValueError\<close> only when it is
  given \<open>error_score='raise'\<close>; otherwise the scores are nan, and their mean and standard
  deviation are formatted as \<open>nan\<close>. Everything else answers with a fresh handle.
\<close>

definition nan_respond :: "bool \<Rightarrow> request \<Rightarrow> nat \<Rightarrow> (py_exception + pyval) \<times> nat" where
  "nan_respond missing_value rq n =
     (case rq of
        Call f args kw \<Rightarrow>
          if f = ''cross_validate'' \<and> missing_value
             \<and> map_of kw ''error_score'' = Some (StrV ''raise'')
          then (Inl ValueError, n)
          else if f = ''print'' then (Inr NoneV, n)
          else (Inr (Ref n), Suc n)
      | _ \<Rightarrow> (Inr (Ref n), Suc n))"

definition nan_library :: "bool \<Rightarrow> (nat, py_exception) library" where
  "nan_library missing_value =
     \<lparr>respond = nan_respond missing_value,
      iterate = (\<lambda>obj n. (Inr [], n)),
      format_field = (\<lambda>v spec n.
        (Inr (if spec = ''.3f'' then (if missing_value then ''nan'' else ''0.800'')
              else ''{:'' @ spec @ ''}''), n))\<rparr>"

section \<open>Completed statements and their events\<close>

lemma bind_prog_Inr:
  "bind_prog m f s = (Inr y, t) \<longleftrightarrow> (\<exists>x s'. m s = (Inr x, s') \<and> f x s' = (Inr y, t))"
  by (auto simp: bind_prog_def split: prod.splits sum.splits)

lemma ask_Inr:
  "ask lib rq s = (Inr v, t) \<Longrightarrow> trace t = trace s @ [(rq, Inr v)]"
  by (auto simp: ask_def split: prod.splits)

lemma fmt_Inr:
  "fmt lib v spec s = (Inr txt, t) \<Longrightarrow> trace t = trace s @ [(Format v spec, Inr (StrV txt))]"
  by (auto simp: fmt_def split: prod.splits)

lemma iter_over_Inr:
  "iter_over lib obj s = (Inr xs, t) \<Longrightarrow> trace t = trace s @ [(Iter obj, Inr (ListV xs))]"
  by (auto simp: iter_over_def split: prod.splits)

lemma print_py_Inr:
  "print_py lib v s = (Inr u, t) \<Longrightarrow> \<exists>r. trace t = trace s @ [(Call ''print'' [v] [], Inr r)]"
  by (auto simp: print_py_def bind_prog_Inr return_prog_def dest!: ask_Inr)

lemma report_Inr:
  assumes "bind_prog (ask lib (Method sc ''mean'' [] [])) (\<lambda>mean.
     bind_prog (fmt lib mean ''.3f'') (\<lambda>mean_text.
     bind_prog (ask lib (Method sc ''std'' [] [])) (\<lambda>std.
     bind_prog (fmt lib std ''.3f'') (\<lambda>std_text.
     print_py lib (StrV (header @ mean_text @ '' +/- '' @ std_text)))))) s = (Inr u, t)"
  shows "\<exists>m mt sd sdt p. trace t = trace s @
     [(Method sc ''mean'' [] [], Inr m),
      (Format m ''.3f'', Inr (StrV mt)),
      (Method sc ''std'' [] [], Inr sd),
      (Format sd ''.3f'', Inr (StrV sdt)),
      (Call ''print'' [StrV (header @ mt @ '' +/- '' @ sdt)] [], Inr p)]"
  using assms
  by (auto simp: bind_prog_Inr dest!: ask_Inr fmt_Inr print_py_Inr)

lemma cell15_body_trace:
  assumes "cell15_body lib model data target C s = (Inr u, t)"
  shows "\<exists>a. trace t = trace s @ sweep_events model data target C a"
proof -
  from assms obtain r s1 cv s2 sc s3 ct s4 where
    1: "ask lib (Method model ''set_params'' [] [(''classifier__C'', C)]) s = (Inr r, s1)" and
    2: "ask lib (Call ''cross_validate'' [model, data, target] []) s1 = (Inr cv, s2)" and
    3: "ask lib (GetItem cv (StrV ''test_score'')) s2 = (Inr sc, s3)" and
    4: "fmt lib C [] s3 = (Inr ct, s4)" and
    5: "bind_prog (ask lib (Method sc ''mean'' [] [])) (\<lambda>mean.
     bind_prog (fmt lib mean ''.3f'') (\<lambda>mean_text.
     bind_prog (ask lib (Method sc ''std'' [] [])) (\<lambda>std.
     bind_prog (fmt lib std ''.3f'') (\<lambda>std_text.
     print_py lib (StrV ((''Accuracy score via cross-validation with C='' @ ct @ '':\<newline>'') @ mean_text @ '' +/- '' @ std_text)))))) s4 = (Inr u, t)"
    unfolding cell15_body_def bind_prog_Inr by auto
  from report_Inr[OF 5] obtain m mt sd sdt p where
    6: "trace t = trace s4 @
     [(Method sc ''mean'' [] [], Inr m),
      (Format m ''.3f'', Inr (StrV mt)),
      (Method sc ''std'' [] [], Inr sd),
      (Format sd ''.3f'', Inr (StrV sdt)),
      (Call ''print'' [StrV ((''Accuracy score via cross-validation with C='' @ ct @ '':\<newline>'') @ mt @ '' +/- '' @ sdt)] [], Inr p)]"
    by blast
  let ?a = "\<lparr>first_result = r, cv_results = cv, scores = sc, C_text = ct, mean = m,
             mean_text = mt, std = sd, std_text = sdt, print_result = p\<rparr>"
  have "trace t = trace s @ sweep_events model data target C ?a"
    using ask_Inr[OF 1] ask_Inr[OF 2] ask_Inr[OF 3] fmt_Inr[OF 4] 6
    by (simp add: sweep_events_def cv_events_def report_events_def)
  then show ?thesis by blast
qed

lemma for_each_trace:
  assumes step: "\<And>x s u t. body x s = (Inr u, t) \<Longrightarrow> \<exists>a. trace t = trace s @ ev x a"
    and run: "for_each xs body s = (Inr u, t)"
  shows "\<exists>as. length as = length xs \<and> trace t = trace s @ concat (map2 ev xs as)"
  using run
proof (induction xs arbitrary: s)
  case Nil
  then show ?case by (simp add: return_prog_def)
next
  case (Cons x xs)
  from Cons.prems obtain u1 s1 where
    b: "body x s = (Inr u1, s1)" and r: "for_each xs body s1 = (Inr u, t)"
    by (auto simp: bind_prog_Inr)
  from step[OF b] obtain a where a: "trace s1 = trace s @ ev x a" by blast
  from Cons.IH[OF r] obtain as where
    as: "length as = length xs" "trace t = trace s1 @ concat (map2 ev xs as)" by blast
  have "length (a # as) = length (x # xs) \<and> trace t = trace s @ concat (map2 ev (x # xs) (a # as))"
    using a as by simp
  then show ?case by blast
qed

section \<open>The parameter sweep\<close>



section \<open>Exceptions propagate\<close>

text \<open>
  Every statement of the notebook is a request or a sequence of statements, and the
  sequencing stops at the first exception; so the whole run is faithful to its trace.
\<close>

lemma faithful_single: "faithful r [(rq, map_sum id f r)]"
  by (cases r) (auto simp: faithful_def succeeded_def)

lemma propagates_return: "propagates (return_prog x)"
  by (simp add: propagates_def return_prog_def faithful_def)

lemma propagates_ask: "propagates (ask lib rq)"
  unfolding propagates_def
proof
  fix s :: "('a, 'b) rt"
  obtain r w' where r: "respond lib rq (world s) = (r, w')" by (cases "respond lib rq (world s)")
  have "faithful r [(rq, r)]"
    using faithful_single[of r rq id] by (simp add: sum.map_id)
  then show "\<exists>evs. trace (snd (ask lib rq s)) = trace s @ evs \<and> faithful (fst (ask lib rq s)) evs"
    by (simp add: ask_def r)
qed

lemma propagates_fmt: "propagates (fmt lib v spec)"
  unfolding propagates_def
proof
  fix s :: "('a, 'b) rt"
  obtain r w' where r: "format_field lib v spec (world s) = (r, w')"
    by (cases "format_field lib v spec (world s)")
  show "\<exists>evs. trace (snd (fmt lib v spec s)) = trace s @ evs \<and> faithful (fst (fmt lib v spec s)) evs"
    using faithful_single[of r "Format v spec" StrV] by (simp add: fmt_def r)
qed

lemma propagates_iter_over: "propagates (iter_over lib obj)"
  unfolding propagates_def
proof
  fix s :: "('a, 'b) rt"
  obtain r w' where r: "iterate lib obj (world s) = (r, w')"
    by (cases "iterate lib obj (world s)")
  show "\<exists>evs. trace (snd (iter_over lib obj s)) = trace s @ evs \<and> faithful (fst (iter_over lib obj s)) evs"
    using faithful_single[of r "Iter obj" ListV] by (simp add: iter_over_def r)
qed

lemma faithful_append:
  assumes "list_all succeeded evs" "faithful r evs'"
  shows "faithful r (evs @ evs')"
proof (cases r)
  case (Inl e)
  with assms(2) obtain pre rq where "evs' = pre @ [(rq, Inl e)]" "list_all succeeded pre"
    by (auto simp: faithful_def)
  with assms(1) have "evs @ evs' = (evs @ pre) @ [(rq, Inl e)] \<and> list_all succeeded (evs @ pre)"
    by simp
  with Inl show ?thesis unfolding faithful_def by (simp only: sum.case) blast
next
  case (Inr x)
  with assms show ?thesis by (simp add: faithful_def)
qed

lemma propagates_bind:
  assumes m: "propagates m" and f: "\<And>x. propagates (f x)"
  shows "propagates (bind_prog m f)"
  unfolding propagates_def
proof
  fix s
  from m obtain evs where evs: "trace (snd (m s)) = trace s @ evs" "faithful (fst (m s)) evs"
    unfolding propagates_def by blast
  obtain r s1 where ms: "m s = (r, s1)" by (cases "m s")
  show "\<exists>evs. trace (snd (bind_prog m f s)) = trace s @ evs \<and> faithful (fst (bind_prog m f s)) evs"
  proof (cases r)
    case (Inl e)
    with ms evs show ?thesis
      by (auto simp: bind_prog_def faithful_def)
  next
    case (Inr x)
    from f[of x] obtain evs' where
      evs': "trace (snd (f x s1)) = trace s1 @ evs'" "faithful (fst (f x s1)) evs'"
      unfolding propagates_def by blast
    from Inr ms evs have ok: "list_all succeeded evs" "trace s1 = trace s @ evs"
      by (auto simp: faithful_def)
    have "trace (snd (bind_prog m f s)) = trace s @ (evs @ evs')"
      using Inr ms evs' ok by (simp add: bind_prog_def)
    moreover have "faithful (fst (bind_prog m f s)) (evs @ evs')"
      using Inr ms faithful_append[OF ok(1) evs'(2)] by (simp add: bind_prog_def)
    ultimately show ?thesis by blast
  qed
qed

lemma propagates_print: "propagates (print_py lib v)"
  unfolding print_py_def by (intro propagates_bind propagates_ask propagates_return)

lemma propagates_for_each:
  assumes "\<And>x. propagates (body x)"
  shows "propagates (for_each xs body)"
  by (induction xs) (auto intro: propagates_return propagates_bind assms)

lemma propagates_case_prod:
  assumes "\<And>a b. propagates (f a b)"
  shows "propagates (case p of (a, b) \<Rightarrow> f a b)"
  using assms by (cases p) simp

lemmas propagates_intros =
  propagates_bind propagates_ask propagates_fmt propagates_iter_over propagates_print
  propagates_return propagates_for_each propagates_case_prod

lemma propagates_notebook: "propagates (notebook lib)"
  unfolding notebook_def cell1_def cell3_def cell5_def cell7_def cell9_def cell11_def
    cell13_def cell15_def cell15_body_def
  by (intro propagates_intros)

text \<open>
  Claim C8, as amended. The script has no recovery and no retry. Whenever a request to the
  library raises an exception during a run of the notebook (\<open>pd.read_csv\<close> on a missing
  CSV file, \<open>set_params\<close> on a parameter name it rejects, or any other request), that
  request is the last one the run makes, every request before it had succeeded, and the
  run ends with that very exception. Whether an input makes the library raise is the
  library's: malformed data need not, as the run after the witnesses shows.
\<close>

theorem library_exception_ends_the_run:
  fixes lib :: "('w, 'e) library"
  assumes "(rq, Inl e) \<in> set (trace (snd (notebook lib (start w))))"
  shows "fst (notebook lib (start w)) = Inl e
       \<and> (\<exists>pre. trace (snd (notebook lib (start w))) = pre @ [(rq, Inl e)]
                \<and> list_all succeeded pre)"
proof -
  from propagates_notebook[of lib] obtain evs where
    evs: "trace (snd (notebook lib (start w))) = trace (start w :: ('w, 'e) rt) @ evs"
      "faithful (fst (notebook lib (start w))) evs"
    unfolding propagates_def by blast
  then have tr: "trace (snd (notebook lib (start w))) = evs"
    by (simp add: start_def)
  have bad: "\<not> succeeded (rq, Inl e)" by (simp add: succeeded_def)
  show ?thesis
  proof (cases "fst (notebook lib (start w))")
    case (Inr x)
    with evs(2) have "list_all succeeded evs" by (simp add: faithful_def)
    with assms tr bad show ?thesis by (auto simp: list_all_iff)
  next
    case (Inl e')
    with evs(2) obtain pre rq' where
      pre: "evs = pre @ [(rq', Inl e')]" "list_all succeeded pre"
      by (auto simp: faithful_def)
    with assms tr bad have "(rq, Inl e) = (rq', Inl e')"
      by (auto simp: list_all_iff)
    with Inl pre tr show ?thesis by simp
  qed
qed

text \<open>A run where the CSV file is missing: \<open>pd.read_csv\<close> raises and the run ends there.\<close>

theorem library_exception_ends_the_run_witness:
  "(Call ''pd.read_csv'' [StrV ''../datasets/adult-census.csv''] [], Inl FileNotFoundError)
     \<in> set (trace (snd (notebook (toy_library [] []) (start 0))))
   \<and> fst (notebook (toy_library [] []) (start 0)) = Inl FileNotFoundError
   \<and> (\<exists>pre. trace (snd (notebook (toy_library [] []) (start 0)))
              = pre @ [(Call ''pd.read_csv'' [StrV ''../datasets/adult-census.csv''] [],
                        Inl FileNotFoundError)]
            \<and> list_all succeeded pre)"
proof -
  have h: "(Call ''pd.read_csv'' [StrV ''../datasets/adult-census.csv''] [], Inl FileNotFoundError)
     \<in> set (trace (snd (notebook (toy_library [] []) (start 0))))"
    by code_simp
  from library_exception_ends_the_run[OF h] h show ?thesis by blast
qed

text \<open>
  A run where the pipeline does not know the parameter name: the first \<open>set_params\<close>
  (cell 9) raises, after the report of cell 7 has been printed, and the run ends there.
\<close>

lemma rejected_parameter_name_ends_the_run:
  "fst (notebook (toy_library [''../datasets/adult-census.csv''] []) (start 0)) = Inl ValueError
   \<and> last (trace (snd (notebook (toy_library [''../datasets/adult-census.csv''] []) (start 0))))
       = (Method (Ref 10) ''set_params'' [] [(''classifier__C'', FloatLit 1 (- 3))], Inl ValueError)"
  by code_simp

text \<open>
  The claim as it was first put also named malformed data among the inputs whose failure
  ends the run. The script does not make it so: it calls \<open>cross_validate(model, data,
  target)\<close> with no keyword, so with a library that scores a failed fit as nan (the
  default of scikit-learn) a CSV file with a missing value raises nothing. The run
  completes, every request succeeds, and cell 7 prints \<open>nan +/- nan\<close>; the same library
  raises when it is asked with \<open>error_score='raise'\<close>.
\<close>

theorem malformed_data_run_completes:
  "fst (notebook (nan_library True) (start 0)) = Inr ()
   \<and> list_all succeeded (trace (snd (notebook (nan_library True) (start 0))))
   \<and> (Call ''cross_validate'' [Ref 10, Ref 3, Ref 2] [], Inr (Ref 12))
       \<in> set (trace (snd (notebook (nan_library True) (start 0))))
   \<and> (Call ''print'' [StrV ''Accuracy score via cross-validation:\<newline>nan +/- nan''] [],
        Inr NoneV)
       \<in> set (trace (snd (notebook (nan_library True) (start 0))))
   \<and> fst (respond (nan_library True)
            (Call ''cross_validate'' [Ref 10, Ref 3, Ref 2] [(''error_score'', StrV ''raise'')])
            12)
       = Inl ValueError"
  by code_simp

section \<open>The trace of a completed run, cell by cell\<close>

lemma cell1_trace:
  assumes "cell1 lib s = (Inr (data, target), t)"
  shows "\<exists>pd df. trace t = trace s @
     [(ImportAs ''pandas'' ''pd'', Inr pd),
      (Call ''pd.read_csv'' [StrV ''../datasets/adult-census.csv''] [], Inr df),
      (GetItem df target_name, Inr target),
      (GetItem df numerical_columns, Inr data)]"
  using assms unfolding cell1_def
  by (auto simp: bind_prog_Inr return_prog_def dest!: ask_Inr)

lemma cell3_trace:
  assumes "cell3 lib data s = (Inr u, t)"
  shows "\<exists>h. trace t = trace s @ [(Method data ''head'' [] [], Inr h)]"
  using assms unfolding cell3_def
  by (auto simp: bind_prog_Inr return_prog_def dest!: ask_Inr)

lemma cell5_trace:
  assumes "cell5 lib s = (Inr model, t)"
  shows "\<exists>i1 i2 i3 scaler classifier. trace t = trace s @
     [(ImportFrom ''sklearn.pipeline'' ''Pipeline'', Inr i1),
      (ImportFrom ''sklearn.preprocessing'' ''StandardScaler'', Inr i2),
      (ImportFrom ''sklearn.linear_model'' ''LogisticRegression'', Inr i3),
      (Call ''StandardScaler'' [] [], Inr scaler),
      (Call ''LogisticRegression'' [] [], Inr classifier),
      (Call ''Pipeline'' []
         [(''steps'', ListV [TupleV [StrV ''preprocessor'', scaler],
                             TupleV [StrV ''classifier'', classifier]])], Inr model)]"
  using assms unfolding cell5_def
  by (auto simp: bind_prog_Inr dest!: ask_Inr)

lemma evaluation_trace:
  assumes "bind_prog (ask lib first) (\<lambda>_.
     bind_prog (ask lib (Call ''cross_validate'' [model, data, target] [])) (\<lambda>cv_results.
     bind_prog (ask lib (GetItem cv_results (StrV ''test_score''))) (\<lambda>scores.
     bind_prog (ask lib (Method scores ''mean'' [] [])) (\<lambda>mean.
     bind_prog (fmt lib mean ''.3f'') (\<lambda>mean_text.
     bind_prog (ask lib (Method scores ''std'' [] [])) (\<lambda>std.
     bind_prog (fmt lib std ''.3f'') (\<lambda>std_text.
     print_py lib (StrV (header @ mean_text @ '' +/- '' @ std_text))))))))) s = (Inr u, t)"
  shows "\<exists>a. trace t = trace s @ (first, Inr (first_result a))
                # cv_events model data target a @ report_events header a"
proof -
  from assms obtain r s1 cv s2 sc s3 where
    1: "ask lib first s = (Inr r, s1)" and
    2: "ask lib (Call ''cross_validate'' [model, data, target] []) s1 = (Inr cv, s2)" and
    3: "ask lib (GetItem cv (StrV ''test_score'')) s2 = (Inr sc, s3)" and
    5: "bind_prog (ask lib (Method sc ''mean'' [] [])) (\<lambda>mean.
     bind_prog (fmt lib mean ''.3f'') (\<lambda>mean_text.
     bind_prog (ask lib (Method sc ''std'' [] [])) (\<lambda>std.
     bind_prog (fmt lib std ''.3f'') (\<lambda>std_text.
     print_py lib (StrV (header @ mean_text @ '' +/- '' @ std_text)))))) s3 = (Inr u, t)"
    unfolding bind_prog_Inr by auto
  from report_Inr[OF 5] obtain m mt sd sdt p where
    6: "trace t = trace s3 @
     [(Method sc ''mean'' [] [], Inr m),
      (Format m ''.3f'', Inr (StrV mt)),
      (Method sc ''std'' [] [], Inr sd),
      (Format sd ''.3f'', Inr (StrV sdt)),
      (Call ''print'' [StrV (header @ mt @ '' +/- '' @ sdt)] [], Inr p)]"
    by blast
  let ?a = "\<lparr>first_result = r, cv_results = cv, scores = sc, C_text = [], mean = m,
             mean_text = mt, std = sd, std_text = sdt, print_result = p\<rparr>"
  have "trace t = trace s @ (first, Inr (first_result ?a))
                # cv_events model data target ?a @ report_events header ?a"
    using ask_Inr[OF 1] ask_Inr[OF 2] ask_Inr[OF 3] 6
    by (simp add: cv_events_def report_events_def)
  then show ?thesis by blast
qed

lemma cell7_trace:
  assumes "cell7 lib model data target s = (Inr u, t)"
  shows "\<exists>a. trace t = trace s
            @ (ImportFrom ''sklearn.model_selection'' ''cross_validate'', Inr (first_result a))
            # cv_events model data target a
            @ report_events ''Accuracy score via cross-validation:\<newline>'' a"
  using assms unfolding cell7_def by (rule evaluation_trace)

lemma cell9_trace:
  assumes "cell9 lib model data target s = (Inr u, t)"
  shows "\<exists>a. trace t = trace s
            @ (Method model ''set_params'' [] [(''classifier__C'', FloatLit 1 (- 3))],
               Inr (first_result a))
            # cv_events model data target a
            @ report_events ''Accuracy score via cross-validation:\<newline>'' a"
  using assms unfolding cell9_def by (rule evaluation_trace)

lemma concat_map2_single:
  "length as = length xs \<Longrightarrow> concat (map2 (\<lambda>x a. [f x a]) xs as) = map2 f xs as"
  by (induction xs as rule: list_induct2') auto

lemma cell11_trace:
  assumes "cell11 lib model s = (Inr u, t)"
  shows "\<exists>params keys prs. length prs = length keys \<and> trace t = trace s
            @ [(Method model ''get_params'' [] [], Inr params), (Iter params, Inr (ListV keys))]
            @ map2 (\<lambda>k r. (Call ''print'' [k] [], Inr r)) keys prs"
proof -
  from assms obtain params s1 keys s2 where
    1: "ask lib (Method model ''get_params'' [] []) s = (Inr params, s1)" and
    2: "iter_over lib params s1 = (Inr keys, s2)" and
    3: "for_each keys (\<lambda>parameter. print_py lib parameter) s2 = (Inr u, t)"
    unfolding cell11_def bind_prog_Inr by auto
  have "\<exists>prs. length prs = length keys
      \<and> trace t = trace s2 @ concat (map2 (\<lambda>k r. [(Call ''print'' [k] [], Inr r)]) keys prs)"
    by (rule for_each_trace[OF print_py_Inr 3])
  then obtain prs where prs: "length prs = length keys"
    "trace t = trace s2 @ map2 (\<lambda>k r. (Call ''print'' [k] [], Inr r)) keys prs"
    by (auto simp: concat_map2_single)
  with ask_Inr[OF 1] iter_over_Inr[OF 2] show ?thesis by auto
qed

lemma cell13_trace:
  assumes "cell13 lib model s = (Inr c, t)"
  shows "\<exists>params. trace t = trace s @
     [(Method model ''get_params'' [] [], Inr params),
      (GetItem params (StrV ''classifier__C''), Inr c)]"
  using assms unfolding cell13_def
  by (auto simp: bind_prog_Inr dest!: ask_Inr)

lemma cell15_trace:
  assumes "cell15 lib model data target s = (Inr u, t)"
  shows "\<exists>as. length as = length candidates
          \<and> trace t = trace s @ concat (map2 (sweep_events model data target) candidates as)"
proof -
  from assms have run: "for_each candidates (cell15_body lib model data target) s = (Inr u, t)"
    by (simp add: cell15_def)
  show ?thesis by (rule for_each_trace[OF cell15_body_trace run])
qed

section \<open>The printed reports\<close>



section \<open>The trace of a completed run of the notebook\<close>

lemma notebook_trace:
  fixes lib :: "('w, 'e) library"
  assumes "notebook lib (start w) = (Inr u, t)"
  shows "\<exists>pd df target data h i1 i2 i3 scaler classifier model a7 a9 params keys prs
            params' c as.
     length prs = length keys \<and> length as = length candidates \<and>
     trace t =
       [(ImportAs ''pandas'' ''pd'', Inr pd),
        (Call ''pd.read_csv'' [StrV ''../datasets/adult-census.csv''] [], Inr df),
        (GetItem df target_name, Inr target),
        (GetItem df numerical_columns, Inr data),
        (Method data ''head'' [] [], Inr h),
        (ImportFrom ''sklearn.pipeline'' ''Pipeline'', Inr i1),
        (ImportFrom ''sklearn.preprocessing'' ''StandardScaler'', Inr i2),
        (ImportFrom ''sklearn.linear_model'' ''LogisticRegression'', Inr i3),
        (Call ''StandardScaler'' [] [], Inr scaler),
        (Call ''LogisticRegression'' [] [], Inr classifier),
        (Call ''Pipeline'' []
           [(''steps'', ListV [TupleV [StrV ''preprocessor'', scaler],
                               TupleV [StrV ''classifier'', classifier]])], Inr model)]
       @ ((ImportFrom ''sklearn.model_selection'' ''cross_validate'', Inr (first_result a7))
          # cv_events model data target a7
          @ report_events ''Accuracy score via cross-validation:\<newline>'' a7)
       @ ((Method model ''set_params'' [] [(''classifier__C'', FloatLit 1 (- 3))],
           Inr (first_result a9))
          # cv_events model data target a9
          @ report_events ''Accuracy score via cross-validation:\<newline>'' a9)
       @ [(Method model ''get_params'' [] [], Inr params), (Iter params, Inr (ListV keys))]
       @ map2 (\<lambda>k r. (Call ''print'' [k] [], Inr r)) keys prs
       @ [(Method model ''get_params'' [] [], Inr params'),
          (GetItem params' (StrV ''classifier__C''), Inr c)]
       @ concat (map2 (sweep_events model data target) candidates as)"
proof -
  from assms have "\<exists>data target s1 u3 s3 model s5 u7 s7 u9 s9 u11 s11 c s13.
      cell1 lib (start w) = (Inr (data, target), s1) \<and>
      cell3 lib data s1 = (Inr u3, s3) \<and>
      cell5 lib s3 = (Inr model, s5) \<and>
      cell7 lib model data target s5 = (Inr u7, s7) \<and>
      cell9 lib model data target s7 = (Inr u9, s9) \<and>
      cell11 lib model s9 = (Inr u11, s11) \<and>
      cell13 lib model s11 = (Inr c, s13) \<and>
      cell15 lib model data target s13 = (Inr u, t)"
    by (auto simp: notebook_def bind_prog_Inr split: prod.splits)
  then obtain data target s1 u3 s3 model s5 u7 s7 u9 s9 u11 s11 c s13 where
    1: "cell1 lib (start w) = (Inr (data, target), s1)" and
    3: "cell3 lib data s1 = (Inr u3, s3)" and
    5: "cell5 lib s3 = (Inr model, s5)" and
    7: "cell7 lib model data target s5 = (Inr u7, s7)" and
    9: "cell9 lib model data target s7 = (Inr u9, s9)" and
    11: "cell11 lib model s9 = (Inr u11, s11)" and
    13: "cell13 lib model s11 = (Inr c, s13)" and
    15: "cell15 lib model data target s13 = (Inr u, t)"
    by blast
  have 0: "trace (start w :: ('w, 'e) rt) = []" by (simp add: start_def)
  from cell1_trace[OF 1] cell3_trace[OF 3] cell5_trace[OF 5] cell7_trace[OF 7]
    cell9_trace[OF 9] cell11_trace[OF 11] cell13_trace[OF 13] cell15_trace[OF 15] 0
  show ?thesis
    by (elim exE conjE) (simp, blast)
qed

section \<open>The events of a completed run, unfolded\<close>

lemma length_candidates_conv:
  "length as = length candidates \<longleftrightarrow> (\<exists>a1 a2 a3 a4 a5. as = [a1, a2, a3, a4, a5])"
  by (auto simp: candidates_def length_Suc_conv)

lemma prints_unseen:
  assumes "\<And>k r. f (Call ''print'' [k] [], Inr r) = []"
  shows "concat (map f (map2 (\<lambda>k r. (Call ''print'' [k] [], Inr r)) keys prs)) = []"
proof (induction keys arbitrary: prs)
  case Nil
  show ?case by simp
next
  case (Cons k keys)
  then show ?case by (cases prs) (simp_all add: assms)
qed

lemma notebook_trace_unfolded:
  fixes lib :: "('w, 'e) library"
  assumes "fst (notebook lib (start w)) = Inr u"
  obtains pd df target data h i1 i2 i3 scaler classifier model a7 a9 params keys prs
            params' c a1 a2 a3 a4 a5
  where "trace (snd (notebook lib (start w))) =
       [(ImportAs ''pandas'' ''pd'', Inr pd),
        (Call ''pd.read_csv'' [StrV ''../datasets/adult-census.csv''] [], Inr df),
        (GetItem df target_name, Inr target),
        (GetItem df numerical_columns, Inr data),
        (Method data ''head'' [] [], Inr h),
        (ImportFrom ''sklearn.pipeline'' ''Pipeline'', Inr i1),
        (ImportFrom ''sklearn.preprocessing'' ''StandardScaler'', Inr i2),
        (ImportFrom ''sklearn.linear_model'' ''LogisticRegression'', Inr i3),
        (Call ''StandardScaler'' [] [], Inr scaler),
        (Call ''LogisticRegression'' [] [], Inr classifier),
        (Call ''Pipeline'' []
           [(''steps'', ListV [TupleV [StrV ''preprocessor'', scaler],
                               TupleV [StrV ''classifier'', classifier]])], Inr model)]
       @ ((ImportFrom ''sklearn.model_selection'' ''cross_validate'', Inr (first_result a7))
          # cv_events model data target a7
          @ report_events ''Accuracy score via cross-validation:\<newline>'' a7)
       @ ((Method model ''set_params'' [] [(''classifier__C'', FloatLit 1 (- 3))],
           Inr (first_result a9))
          # cv_events model data target a9
          @ report_events ''Accuracy score via cross-validation:\<newline>'' a9)
       @ [(Method model ''get_params'' [] [], Inr params), (Iter params, Inr (ListV keys))]
       @ map2 (\<lambda>k r. (Call ''print'' [k] [], Inr r)) keys prs
       @ [(Method model ''get_params'' [] [], Inr params'),
          (GetItem params' (StrV ''classifier__C''), Inr c)]
       @ sweep_events model data target (FloatLit 1 (- 3)) a1
       @ sweep_events model data target (FloatLit 1 (- 2)) a2
       @ sweep_events model data target (FloatLit 1 (- 1)) a3
       @ sweep_events model data target (IntLit 1) a4
       @ sweep_events model data target (IntLit 10) a5"
proof -
  from assms have "notebook lib (start w) = (Inr u, snd (notebook lib (start w)))"
    by (simp add: prod_eq_iff)
  from notebook_trace[OF this] that show thesis
    by (elim exE conjE) (simp add: length_candidates_conv, elim exE, simp add: candidates_def)
qed

lemmas events_defs = cv_events_def report_events_def sweep_events_def

section \<open>The pipeline object in the script\<close>

lemma prints_created_pipelines:
  "concat (map created_pipelines (map2 (\<lambda>k r. (Call ''print'' [k] [], Inr r)) keys prs)) = []"
  by (rule prints_unseen) simp

lemma prints_set_params_receivers:
  "concat (map set_params_receivers (map2 (\<lambda>k r. (Call ''print'' [k] [], Inr r)) keys prs)) = []"
  by (rule prints_unseen) simp

lemma prints_set_params_kwargs:
  "concat (map set_params_kwargs (map2 (\<lambda>k r. (Call ''print'' [k] [], Inr r)) keys prs)) = []"
  by (rule prints_unseen) simp

lemma prints_cross_validate_estimators:
  "concat (map cross_validate_estimators (map2 (\<lambda>k r. (Call ''print'' [k] [], Inr r)) keys prs)) = []"
  by (rule prints_unseen) simp

lemma prints_cross_validate_kwargs:
  "concat (map cross_validate_kwargs (map2 (\<lambda>k r. (Call ''print'' [k] [], Inr r)) keys prs)) = []"
  by (rule prints_unseen) simp

text \<open>
  What the script fixes about the pipeline object. In every completed run \<open>Pipeline\<close> is
  called once; the object it returns is the receiver of every \<open>set_params\<close> and the
  estimator of every \<open>cross_validate\<close>; \<open>set_params\<close> is given \<open>classifier__C\<close> alone, first
  \<open>1e-3\<close> (cell 9) and then the five candidates in order; \<open>cross_validate\<close> is never given
  a keyword. What \<open>set_params\<close> does to the object, and what \<open>cross_validate\<close> then sees,
  is the library's and is not settled here.
\<close>

lemma script_passes_one_pipeline_object:
  fixes lib :: "('w, 'e) library"
  assumes "fst (notebook lib (start w)) = Inr u"
  shows "\<exists>model.
           concat (map created_pipelines (trace (snd (notebook lib (start w))))) = [model]
         \<and> set (concat (map set_params_receivers (trace (snd (notebook lib (start w)))))) = {model}
         \<and> set (concat (map cross_validate_estimators (trace (snd (notebook lib (start w))))))
             = {model}
         \<and> concat (map set_params_kwargs (trace (snd (notebook lib (start w)))))
             = map (\<lambda>C. (''classifier__C'', C)) (FloatLit 1 (- 3) # candidates)
         \<and> concat (map cross_validate_kwargs (trace (snd (notebook lib (start w))))) = []"
proof -
  from assms obtain pd df target data h i1 i2 i3 scaler classifier model a7 a9 params keys prs
      params' c a1 a2 a3 a4 a5
    where tr: "trace (snd (notebook lib (start w))) =
       [(ImportAs ''pandas'' ''pd'', Inr pd),
        (Call ''pd.read_csv'' [StrV ''../datasets/adult-census.csv''] [], Inr df),
        (GetItem df target_name, Inr target),
        (GetItem df numerical_columns, Inr data),
        (Method data ''head'' [] [], Inr h),
        (ImportFrom ''sklearn.pipeline'' ''Pipeline'', Inr i1),
        (ImportFrom ''sklearn.preprocessing'' ''StandardScaler'', Inr i2),
        (ImportFrom ''sklearn.linear_model'' ''LogisticRegression'', Inr i3),
        (Call ''StandardScaler'' [] [], Inr scaler),
        (Call ''LogisticRegression'' [] [], Inr classifier),
        (Call ''Pipeline'' []
           [(''steps'', ListV [TupleV [StrV ''preprocessor'', scaler],
                               TupleV [StrV ''classifier'', classifier]])], Inr model)]
       @ ((ImportFrom ''sklearn.model_selection'' ''cross_validate'', Inr (first_result a7))
          # cv_events model data target a7
          @ report_events ''Accuracy score via cross-validation:\<newline>'' a7)
       @ ((Method model ''set_params'' [] [(''classifier__C'', FloatLit 1 (- 3))],
           Inr (first_result a9))
          # cv_events model data target a9
          @ report_events ''Accuracy score via cross-validation:\<newline>'' a9)
       @ [(Method model ''get_params'' [] [], Inr params), (Iter params, Inr (ListV keys))]
       @ map2 (\<lambda>k r. (Call ''print'' [k] [], Inr r)) keys prs
       @ [(Method model ''get_params'' [] [], Inr params'),
          (GetItem params' (StrV ''classifier__C''), Inr c)]
       @ sweep_events model data target (FloatLit 1 (- 3)) a1
       @ sweep_events model data target (FloatLit 1 (- 2)) a2
       @ sweep_events model data target (FloatLit 1 (- 1)) a3
       @ sweep_events model data target (IntLit 1) a4
       @ sweep_events model data target (IntLit 10) a5"
    by (rule notebook_trace_unfolded)
  have created: "concat (map created_pipelines (trace (snd (notebook lib (start w))))) = [model]"
    unfolding tr by (auto simp: events_defs prints_created_pipelines)
  have receivers: "concat (map set_params_receivers (trace (snd (notebook lib (start w)))))
      = replicate 6 model"
    unfolding tr by (auto simp: events_defs prints_set_params_receivers eval_nat_numeral)
  have estimators: "concat (map cross_validate_estimators (trace (snd (notebook lib (start w)))))
      = replicate 7 model"
    unfolding tr by (auto simp: events_defs prints_cross_validate_estimators eval_nat_numeral)
  have kwargs: "concat (map set_params_kwargs (trace (snd (notebook lib (start w)))))
      = map (\<lambda>C. (''classifier__C'', C)) (FloatLit 1 (- 3) # candidates)"
    unfolding tr by (auto simp: events_defs prints_set_params_kwargs candidates_def)
  have plain: "concat (map cross_validate_kwargs (trace (snd (notebook lib (start w))))) = []"
    unfolding tr by (auto simp: events_defs prints_cross_validate_kwargs)
  have "set (concat (map set_params_receivers (trace (snd (notebook lib (start w)))))) = {model}"
    unfolding receivers by simp
  moreover have "set (concat (map cross_validate_estimators (trace (snd (notebook lib (start w))))))
      = {model}"
    unfolding estimators by simp
  ultimately show ?thesis using created kwargs plain by blast
qed

end
